theory Spec2Isabelle
  imports Complex_Main
begin

section \<open>Data model\<close>

text \<open>
  The source works on numpy arrays of 64-bit floats. A finite float is modelled by the
  real number it denotes (rounding and overflow are not modelled); the three special
  values that numpy produces without raising (a mean over an empty slice, a division by
  zero) are kept as constructors of their own, because the clamp \<open>relim[relim < 0] = 0\<close>
  treats them differently from numbers. Signed zeros are not modelled: a zero denominator
  is \<open>+0\<close>, which is what a sum of zeros gives.
\<close>

datatype npfloat = Fin real | PInf | NInf | NaN

fun fl_less :: "npfloat \<Rightarrow> npfloat \<Rightarrow> bool" where
  "fl_less NaN _ = False"
| "fl_less _ NaN = False"
| "fl_less (Fin x) (Fin y) = (x < y)"
| "fl_less NInf NInf = False"
| "fl_less NInf _ = True"
| "fl_less _ NInf = False"
| "fl_less PInf _ = False"
| "fl_less _ PInf = True"

fun fl_le :: "npfloat \<Rightarrow> npfloat \<Rightarrow> bool" where
  "fl_le NaN _ = False"
| "fl_le _ NaN = False"
| "fl_le (Fin x) (Fin y) = (x \<le> y)"
| "fl_le NInf _ = True"
| "fl_le _ PInf = True"
| "fl_le PInf _ = False"
| "fl_le _ NInf = False"

fun fl_minus :: "npfloat \<Rightarrow> npfloat \<Rightarrow> npfloat" where
  "fl_minus NaN _ = NaN"
| "fl_minus _ NaN = NaN"
| "fl_minus (Fin x) (Fin y) = Fin (x - y)"
| "fl_minus PInf PInf = NaN"
| "fl_minus NInf NInf = NaN"
| "fl_minus PInf _ = PInf"
| "fl_minus NInf _ = NInf"
| "fl_minus _ PInf = NInf"
| "fl_minus _ NInf = PInf"

fun fl_times :: "real \<Rightarrow> npfloat \<Rightarrow> npfloat" where
  "fl_times k (Fin x) = Fin (k * x)"
| "fl_times k NaN = NaN"
| "fl_times k PInf = (if 0 < k then PInf else if k < 0 then NInf else NaN)"
| "fl_times k NInf = (if 0 < k then NInf else if k < 0 then PInf else NaN)"

fun fl_div :: "npfloat \<Rightarrow> npfloat \<Rightarrow> npfloat" where
  "fl_div NaN _ = NaN"
| "fl_div _ NaN = NaN"
| "fl_div (Fin x) (Fin y) =
     (if y \<noteq> 0 then Fin (x / y)
      else if 0 < x then PInf else if x < 0 then NInf else NaN)"
| "fl_div (Fin x) _ = Fin 0"
| "fl_div PInf (Fin y) = (if 0 \<le> y then PInf else NInf)"
| "fl_div NInf (Fin y) = (if 0 \<le> y then NInf else PInf)"
| "fl_div _ _ = NaN"

text \<open>
  A series is the 4-D array \<open>(T, Z, Y, X)\<close>: the spatial shape, the timeline (one time
  offset in seconds per sample) and one frame per time sample, each frame the flattened
  (C order) list of its \<open>Z * Y * X\<close> voxels.
\<close>

record 'a series =
  shape :: "nat \<times> nat \<times> nat"
  timeline :: "real list"
  frames :: "'a list list"

definition nvox :: "nat \<times> nat \<times> nat \<Rightarrow> nat" where
  "nvox s = (case s of (z, y, x) \<Rightarrow> z * y * x)"

definition wf_series :: "'a series \<Rightarrow> bool" where
  "wf_series im = list_all (\<lambda>fr. length fr = nvox (shape im)) (frames im)"

text \<open>Python's \<open>xs[:b]\<close> for an integer \<open>b\<close>: a negative bound counts from the end.\<close>

definition py_slice_to :: "int \<Rightarrow> 'a list \<Rightarrow> 'a list" where
  "py_slice_to b xs =
     (if 0 \<le> b then take (nat b) xs else take (nat (int (length xs) + b)) xs)"

text \<open>
  \<open>str.upper()\<close> and \<open>str.strip()\<close> on ASCII strings: letters \<open>a\<close> to \<open>z\<close> are
  raised, and the characters Python counts as white space are removed at both ends.
\<close>

definition upper_char :: "char \<Rightarrow> char" where
  "upper_char c =
     (if 97 \<le> (of_char c :: nat) \<and> (of_char c :: nat) \<le> 122
      then char_of ((of_char c :: nat) - 32) else c)"

definition upper :: "string \<Rightarrow> string" where
  "upper s = map upper_char s"

definition isspace :: "char \<Rightarrow> bool" where
  "isspace c = ((of_char c :: nat) \<in> {9, 10, 11, 12, 13, 28, 29, 30, 31, 32})"

definition strip :: "string \<Rightarrow> string" where
  "strip s = rev (dropWhile isspace (rev (dropWhile isspace s)))"

section \<open>Concentration Mapper\<close>

text \<open>\<open>np.mean(..., axis=0)\<close>: the mean over an empty slice is NaN (a warning, no raise).\<close>

definition np_mean :: "real list \<Rightarrow> npfloat" where
  "np_mean vs = (if vs = [] then NaN else Fin (sum_list vs / real (length vs)))"

definition mean_axis0 :: "nat \<Rightarrow> real list list \<Rightarrow> npfloat list" where
  "mean_axis0 n frs = map (\<lambda>j. np_mean (map (\<lambda>fr. fr ! j) frs)) [0..<n]"

definition zeros_like :: "'a series \<Rightarrow> npfloat series" where
  "zeros_like im = \<lparr>shape = shape im, timeline = timeline im, frames = map (map (\<lambda>_. Fin 0)) (frames im)\<rparr>"

definition clamp :: "npfloat \<Rightarrow> npfloat" where
  "clamp v = (if fl_less v (Fin 0) then Fin 0 else v)"

definition rcm_step ::
  "real list list \<Rightarrow> npfloat list \<Rightarrow> real \<Rightarrow> string \<Rightarrow> nat \<Rightarrow> npfloat list list \<Rightarrow> npfloat list list"
where
  "rcm_step im im0 k option i relim =
     (if strip (upper option) = ''ABS''
      then relim[i := map2 (\<lambda>x m. fl_times k (fl_minus (Fin x) m)) (im ! i) im0]
      else if strip (upper option) = ''REL''
      then relim[i := map2 (\<lambda>x m. fl_div (fl_times k (fl_minus (Fin x) m)) m) (im ! i) im0]
      else relim)"

definition relative_concentration_map ::
  "real series \<Rightarrow> int \<Rightarrow> real \<Rightarrow> string \<Rightarrow> npfloat series"
where
  "relative_concentration_map im baseline k option =
     (let relim = frames (zeros_like im);
          im0 = mean_axis0 (nvox (shape im)) (py_slice_to baseline (frames im));
          relim = fold (rcm_step (frames im) im0 k option) [0..<length (frames im)] relim
      in \<lparr>shape = shape im, timeline = timeline im, frames = map (map clamp) relim\<rparr>)"

section \<open>Errors\<close>

text \<open>
  The exceptions the modelled code can raise: a failed \<open>assert\<close>, the \<open>ValueError\<close>
  of the curve fit, and any other exception of a collaborator (carried by name).
\<close>

datatype error = AssertionError | ValueError | IndexError | NameError | OtherError string

section \<open>Candidate Selector\<close>

text \<open>
  \<open>np.percentile(a, q)\<close> with the default linear interpolation on a map of finite values:
  the flattened data is sorted, the virtual index is \<open>(N - 1) * q / 100\<close>, and the value
  is interpolated between its two neighbours. For an empty map numpy gives NaN, which is
  compared against no voxel; the model returns 0 there.
\<close>

definition interp :: "real list \<Rightarrow> real \<Rightarrow> real" where
  "interp s h =
     (let lo = nat \<lfloor>h\<rfloor>;
          hi = min (lo + 1) (length s - 1);
          g = h - real lo
      in s ! lo + (s ! hi - s ! lo) * g)"

definition percentile :: "real list \<Rightarrow> real \<Rightarrow> real" where
  "percentile a q =
     (if a = [] then 0 else interp (sort a) (real (length a - 1) * (q / 100)))"

definition window_mean :: "real series \<Rightarrow> int \<Rightarrow> real list" where
  "window_mean dce timesteps =
     map (\<lambda>j. sum_list (map (\<lambda>fr. fr ! j) (py_slice_to timesteps (frames dce)))
                 / real_of_int timesteps) [0..<nvox (shape dce)]"

definition select_brightest_voxels :: "real series \<Rightarrow> int \<Rightarrow> real \<Rightarrow> error + bool list" where
  "select_brightest_voxels dce timesteps pct =
     (if \<not> (timesteps > 0 \<and> timesteps < int (length (frames dce))) then Inl AssertionError
      else if \<not> (0 < pct \<and> pct < 100) then Inl AssertionError
      else
        let dce_sum = window_mean dce timesteps;
            dce_pct = percentile dce_sum (100 - pct)
        in Inr (map (\<lambda>v. v > dce_pct) dce_sum))"

text \<open>
  \<open>scipy.ndimage.binary_opening(voxels)\<close> with every optional argument at its default:
  one erosion followed by one dilation, both with the structuring element
  \<open>generate_binary_structure(ndim, 1)\<close>, origin 0, and voxels outside the volume read as
  0 (\<open>border_value = 0\<close>). A voxel is addressed by its coordinates \<open>(z, y, x)\<close>; the flat
  position follows numpy's C order.
\<close>

type_synonym coord = "int \<times> int \<times> int"

definition in_bounds :: "nat \<times> nat \<times> nat \<Rightarrow> coord \<Rightarrow> bool" where
  "in_bounds s p =
     (case s of (Z, Y, X) \<Rightarrow> case p of (z, y, x) \<Rightarrow>
        0 \<le> z \<and> z < int Z \<and> 0 \<le> y \<and> y < int Y \<and> 0 \<le> x \<and> x < int X)"

definition ravel :: "nat \<times> nat \<times> nat \<Rightarrow> coord \<Rightarrow> nat" where
  "ravel s p = (case s of (Z, Y, X) \<Rightarrow> case p of (z, y, x) \<Rightarrow> (nat z * Y + nat y) * X + nat x)"

definition unravel :: "nat \<times> nat \<times> nat \<Rightarrow> nat \<Rightarrow> coord" where
  "unravel s i =
     (case s of (Z, Y, X) \<Rightarrow> (int (i div (Y * X)), int ((i div X) mod Y), int (i mod X)))"

definition voxel_at :: "nat \<times> nat \<times> nat \<Rightarrow> bool list \<Rightarrow> coord \<Rightarrow> bool" where
  "voxel_at s m p = (in_bounds s p \<and> m ! ravel s p)"

definition shift :: "coord \<Rightarrow> coord \<Rightarrow> coord" where
  "shift p d = (case p of (z, y, x) \<Rightarrow> case d of (dz, dy, dx) \<Rightarrow> (z + dz, y + dy, x + dx))"

definition unshift :: "coord \<Rightarrow> coord \<Rightarrow> coord" where
  "unshift p d = (case p of (z, y, x) \<Rightarrow> case d of (dz, dy, dx) \<Rightarrow> (z - dz, y - dy, x - dx))"

definition offsets27 :: "coord list" where
  "offsets27 = concat (map (\<lambda>dz. concat (map (\<lambda>dy. map (\<lambda>dx. (dz, dy, dx)) [-1, 0, 1]) [-1, 0, 1])) [-1, 0, 1])"

definition generate_binary_structure :: "int \<Rightarrow> coord list" where
  "generate_binary_structure connectivity =
     filter (\<lambda>d. case d of (dz, dy, dx) \<Rightarrow> \<bar>dz\<bar> + \<bar>dy\<bar> + \<bar>dx\<bar> \<le> connectivity) offsets27"

definition binary_erosion :: "nat \<times> nat \<times> nat \<Rightarrow> coord list \<Rightarrow> bool list \<Rightarrow> bool list" where
  "binary_erosion s structure m =
     map (\<lambda>i. list_all (\<lambda>d. voxel_at s m (shift (unravel s i) d)) structure) [0..<nvox s]"

definition binary_dilation :: "nat \<times> nat \<times> nat \<Rightarrow> coord list \<Rightarrow> bool list \<Rightarrow> bool list" where
  "binary_dilation s structure m =
     map (\<lambda>i. list_ex (\<lambda>d. voxel_at s m (unshift (unravel s i) d)) structure) [0..<nvox s]"

definition binary_opening :: "nat \<times> nat \<times> nat \<Rightarrow> coord list \<Rightarrow> bool list \<Rightarrow> bool list" where
  "binary_opening s structure m = binary_dilation s structure (binary_erosion s structure m)"

definition select_binary_opening :: "nat \<times> nat \<times> nat \<Rightarrow> bool list \<Rightarrow> bool list" where
  "select_binary_opening s voxels = binary_opening s (generate_binary_structure 1) voxels"

section \<open>Temporal Peak Aligner\<close>

text \<open>
  numpy's boolean-mask indexing \<open>a[mask]\<close> and assignment \<open>a[mask] = vals\<close> on flattened
  arrays, and \<open>np.argmax\<close>, the position of the first maximum.
\<close>

definition mask_select :: "'a list \<Rightarrow> bool list \<Rightarrow> 'a list" where
  "mask_select xs msk = map fst (filter snd (zip xs msk))"

fun mask_assign :: "'a list \<Rightarrow> bool list \<Rightarrow> 'a list \<Rightarrow> 'a list" where
  "mask_assign (b # bs) (m # ms) vs =
     (if m then (case vs of [] \<Rightarrow> b # bs | v # vs' \<Rightarrow> v # mask_assign bs ms vs')
      else b # mask_assign bs ms vs)"
| "mask_assign bs _ _ = bs"

definition np_argmax :: "'a::linorder list \<Rightarrow> nat" where
  "np_argmax xs = length (takeWhile (\<lambda>x. x \<noteq> Max (set xs)) xs)"

definition argmax_axis0 :: "'a::linorder list list \<Rightarrow> nat list" where
  "argmax_axis0 rows = map (\<lambda>k. np_argmax (map (\<lambda>r. r ! k) rows)) [0..<length (hd rows)]"

text \<open>
  \<open>np.histogram(a, bins=n)\<close> on integer data: \<open>n\<close> bins of equal width between the
  smallest and the largest value of the data (between \<open>v - 1/2\<close> and \<open>v + 1/2\<close> when all
  values equal \<open>v\<close>, between 0 and 1 when there is no data); the last bin includes its
  right edge. The bin of a value is computed in exact arithmetic.
\<close>

definition bin_index :: "nat \<Rightarrow> real \<Rightarrow> real \<Rightarrow> nat \<Rightarrow> nat" where
  "bin_index n first_edge last_edge v =
     min (nat \<lfloor>(real v - first_edge) / (last_edge - first_edge) * real n\<rfloor>) (n - 1)"

definition np_histogram :: "nat list \<Rightarrow> nat \<Rightarrow> nat list" where
  "np_histogram a n =
     (if a = [] then replicate n 0
      else
        let mn = real (Min (set a));
            mx = real (Max (set a));
            first_edge = (if mn = mx then mn - 1 / 2 else mn);
            last_edge = (if mn = mx then mx + 1 / 2 else mx);
            indices = map (bin_index n first_edge last_edge) a
        in map (\<lambda>b. count_list indices b) [0..<n])"

definition peak_values :: "real series \<Rightarrow> bool list \<Rightarrow> int \<Rightarrow> nat list" where
  "peak_values dce msk timesteps =
     argmax_axis0 (map (\<lambda>fr. mask_select fr msk) (py_slice_to timesteps (frames dce)))"

definition first_part :: "real series \<Rightarrow> bool list \<Rightarrow> int \<Rightarrow> bool list" where
  "first_part dce msk timesteps =
     (let one_part = timesteps;
          first_part_1 = map (\<lambda>p. 0 < p \<and> int p < one_part) (peak_values dce msk timesteps)
      in mask_assign (replicate (nvox (shape dce)) False) msk first_part_1)"

text \<open>
  The result is \<open>None\<close> for the source's \<open>(None, None)\<close>. \<open>np.argmax\<close> over an empty
  window and \<open>np.histogram\<close> with a non-positive number of bins raise \<open>ValueError\<close>;
  \<open>dce[max_timestep]\<close> past the last frame raises \<open>IndexError\<close>.
\<close>

definition find_most_peak_values ::
  "real series \<Rightarrow> bool list \<Rightarrow> int \<Rightarrow> error + (nat \<times> real list) option"
where
  "find_most_peak_values dce msk timesteps =
     (if py_slice_to timesteps (frames dce) = [] then Inl ValueError
      else if timesteps < 1 then Inl ValueError
      else
        let peak_value = peak_values dce (first_part dce msk timesteps) timesteps;
            hist = np_histogram peak_value (nat timesteps);
            max_timestep = np_argmax hist
        in if max_timestep = 0 \<or> int max_timestep \<ge> timesteps - 1 then Inr None
           else if length (frames dce) \<le> max_timestep then Inl IndexError
           else Inr (Some (max_timestep,
                  mask_assign (replicate (nvox (shape dce)) 0) msk
                    (mask_select (frames dce ! max_timestep) msk))))"

section \<open>Region Extractor\<close>

text \<open>
  A region as \<open>skimage.measure.regionprops\<close> describes it: the label of the connected
  component (regionprops skips the background label 0, so labels start at 1), its number
  of voxels, its convex image and its bounding box.
\<close>

record region =
  label :: nat
  area :: nat
  convex_image :: "bool list"
  bbox :: "nat list"

definition find_promising_objects ::
  "region list \<Rightarrow> nat \<Rightarrow> bool list list \<times> nat list list \<times> nat list"
where
  "find_promising_objects regions area_threshold =
     (let kept = filter (\<lambda>(num, x). num \<noteq> 0 \<and> area x > area_threshold)
                        (List.enumerate 0 regions)
      in (map (\<lambda>(num, x). convex_image (regions ! num)) kept,
          map (\<lambda>(num, x). bbox (regions ! num)) kept,
          map fst kept))"

section \<open>Pharmacokinetic Fitter\<close>

text \<open>
  The computations of scipy, skimage and scikit-learn that the pipeline calls are
  collaborators: least-squares optimisation, connected-component labelling and region
  properties, grey-scale erosion and dilation with the \<open>3 \<times> 3 \<times> 3\<close> cube, the seeded
  flood fill of the region-growing step together with its threshold statistics, the
  k-means clustering with the cluster averaging, and the plot of the final curve with its
  saving. Each is a function of its inputs; those that can raise return an error value.
\<close>

record solution =
  cost :: real
  params :: "real list"

record collab =
  least_squares :: "npfloat list \<Rightarrow> real list \<Rightarrow> error + solution"
  measure_label :: "nat \<times> nat \<times> nat \<Rightarrow> bool list \<Rightarrow> nat list"
  regionprops :: "nat \<times> nat \<times> nat \<Rightarrow> nat list \<Rightarrow> region list"
  erosion :: "nat \<times> nat \<times> nat \<Rightarrow> bool list \<Rightarrow> bool list"
  dilation :: "nat \<times> nat \<times> nat \<Rightarrow> bool list \<Rightarrow> bool list"
  flood_region :: "real series \<Rightarrow> bool list \<Rightarrow> error + bool list"
  cluster_curve :: "real series \<Rightarrow> bool list \<Rightarrow> error + real list"
  save_plot :: "real list \<Rightarrow> real list \<Rightarrow> error + unit"

text \<open>Python's built-in \<open>max\<close>: it raises \<open>ValueError\<close> on an empty sequence.\<close>

fun py_max :: "npfloat list \<Rightarrow> error + npfloat" where
  "py_max [] = Inl ValueError"
| "py_max (v # vs) = Inr (fold (\<lambda>item m. if fl_less m item then item else m) vs v)"

definition estimate_parkers_model :: "collab \<Rightarrow> npfloat list \<Rightarrow> real list \<Rightarrow> error + solution" where
  "estimate_parkers_model C measured tline =
     (case py_max measured of
        Inl e \<Rightarrow> Inl e
      | Inr norm_factor \<Rightarrow>
          let y = map (\<lambda>v. fl_div v norm_factor) measured
          in least_squares C y tline)"

text \<open>
  The mean curve over a mask, \<open>np.sum(dce_rel, axis=(1,2,3), where=m) / np.count_nonzero(m)\<close>
  (NaN at every time sample when the mask is empty), and its fit over the first half of the
  timeline, \<open>estimate_parkers_model(tc[:half], dce_rel.timeline[:half] / 60)\<close>.
\<close>

definition count_nonzero :: "bool list \<Rightarrow> nat" where
  "count_nonzero m = length (filter id m)"

definition time_course :: "real series \<Rightarrow> bool list \<Rightarrow> npfloat list" where
  "time_course dce m =
     map (\<lambda>fr. fl_div (Fin (sum_list (mask_select fr m))) (Fin (real (count_nonzero m))))
         (frames dce)"

definition fit_mask :: "collab \<Rightarrow> real series \<Rightarrow> nat \<Rightarrow> bool list \<Rightarrow> error + solution" where
  "fit_mask C dce_rel half m =
     estimate_parkers_model C (take half (time_course dce_rel m))
       (map (\<lambda>t. t / 60) (take half (timeline dce_rel)))"

definition region_mask :: "nat list \<Rightarrow> nat \<Rightarrow> bool list" where
  "region_mask label_im x = map (\<lambda>l. l = x + 1) label_im"

text \<open>
  The fit loop over the candidates fills the \<open>cost\<close> column of the region table; a row
  without a fit holds NaN, here \<open>None\<close>. A fit that raises ends the pipeline.
\<close>

fun fit_candidates ::
  "collab \<Rightarrow> real series \<Rightarrow> nat list \<Rightarrow> nat \<Rightarrow> nat list \<Rightarrow> real option list
   \<Rightarrow> error + real option list"
where
  "fit_candidates C dce_rel label_im half [] col = Inr col"
| "fit_candidates C dce_rel label_im half (x # xs) col =
     (case fit_mask C dce_rel half (region_mask label_im x) of
        Inl e \<Rightarrow> Inl e
      | Inr sol \<Rightarrow> fit_candidates C dce_rel label_im half xs (col[x := Some (cost sol)]))"

text \<open>\<open>df['cost'].min()\<close> and \<open>df['cost'].idxmin()\<close>: NaN rows are skipped, the first minimum wins.\<close>

definition present :: "real option list \<Rightarrow> real list" where
  "present col = map the (filter (\<lambda>c. c \<noteq> None) col)"

definition cost_min :: "real option list \<Rightarrow> real" where
  "cost_min col = Min (set (present col))"

definition idxmin :: "real option list \<Rightarrow> nat" where
  "idxmin col = length (takeWhile (\<lambda>c. c \<noteq> Some (cost_min col)) col)"

section \<open>Mask Refiner\<close>

definition multi_dil :: "(bool list \<Rightarrow> bool list) \<Rightarrow> bool list \<Rightarrow> nat \<Rightarrow> bool list" where
  "multi_dil dil im num = (dil ^^ num) im"

definition multi_ero :: "(bool list \<Rightarrow> bool list) \<Rightarrow> bool list \<Rightarrow> nat \<Rightarrow> bool list" where
  "multi_ero ero im num = (ero ^^ num) im"

text \<open>
  Step 5, erosion and dilation: the refit of the eroded and dilated mask is inside a
  \<open>try\<close> whose handler catches \<open>ValueError\<close> only. The result is the mask and the cost
  carried on.
\<close>

definition dilation_stage ::
  "collab \<Rightarrow> real series \<Rightarrow> nat list \<Rightarrow> nat \<Rightarrow> nat \<Rightarrow> real \<Rightarrow> error + bool list \<times> real"
where
  "dilation_stage C dce_rel label_im half best_fit min_cost =
     (let msk = region_mask label_im best_fit;
          multi_eroded = multi_ero (erosion C (shape dce_rel)) msk 1;
          multi_dilated = multi_dil (dilation C (shape dce_rel)) multi_eroded 1
      in case fit_mask C dce_rel half multi_dilated of
           Inr sol \<Rightarrow>
             if cost sol < min_cost then Inr (multi_dilated, cost sol) else Inr (msk, min_cost)
         | Inl e \<Rightarrow> if e = ValueError then Inr (msk, min_cost) else Inl e)"

text \<open>
  Step 6, region growing: the seed, the threshold statistics and the flood fill are the
  collaborator \<open>flood_region\<close>; the refit of the flood-filled region is not inside a
  \<open>try\<close>.
\<close>

definition region_growing_stage ::
  "collab \<Rightarrow> real series \<Rightarrow> nat \<Rightarrow> bool list \<Rightarrow> real \<Rightarrow> error + bool list \<times> real"
where
  "region_growing_stage C dce_rel half msk cad =
     (case flood_region C dce_rel msk of
        Inl e \<Rightarrow> Inl e
      | Inr m \<Rightarrow>
          (case fit_mask C dce_rel half m of
             Inl e \<Rightarrow> Inl e
           | Inr sol \<Rightarrow> if cost sol < cad then Inr (m, cost sol) else Inr (msk, cad)))"

section \<open>Pipeline Orchestrator\<close>

text \<open>
  The pipeline calls the Concentration Mapper in absolute mode with a baseline of 5
  samples, where every value it returns is a finite number; \<open>finite_part\<close> reads the
  volume as such. The images assembled for display between the region extraction and the
  fits are left out. The plot of the final curve and its saving are the collaborator
  \<open>save_plot\<close> (it needs the directory \<open>result_path\<close>, a global that the caller's
  environment has to bind). When no region is a candidate the fit loop never runs,
  \<open>half\<close> stays unbound and the pipeline ends in a \<open>NameError\<close>, if the empty cost
  column has not raised before.
\<close>

definition fin_val :: "npfloat \<Rightarrow> real" where
  "fin_val v = (case v of Fin r \<Rightarrow> r | _ \<Rightarrow> 0)"

definition finite_part :: "npfloat series \<Rightarrow> real series" where
  "finite_part im = \<lparr>shape = shape im, timeline = timeline im, frames = map (map fin_val) (frames im)\<rparr>"

record aif_result =
  curve :: "real list"
  cost_best :: real
  cost_after_dilation :: real
  cost_after_region_growing :: real

definition temporal_alignment ::
  "real series \<Rightarrow> bool list \<Rightarrow> error + (nat \<times> real list) option"
where
  "temporal_alignment dce_rel opened =
     (case find_most_peak_values dce_rel opened 20 of
        Inl e \<Rightarrow> Inl e
      | Inr None \<Rightarrow> find_most_peak_values dce_rel opened 30
      | Inr (Some r) \<Rightarrow> Inr (Some r))"

definition steps_4_to_7 :: "collab \<Rightarrow> real series \<Rightarrow> bool list \<Rightarrow> error + aif_result" where
  "steps_4_to_7 C dce_rel opened =
     (let label_im = measure_label C (shape dce_rel) opened;
          regions = regionprops C (shape dce_rel) label_im;
          area_threshold = 1000;
          list_of_index = snd (snd (find_promising_objects regions area_threshold));
          half = length (timeline dce_rel) div 2
      in case fit_candidates C dce_rel label_im half list_of_index
                (replicate (length regions) None) of
           Inl e \<Rightarrow> Inl e
         | Inr col \<Rightarrow>
             if list_of_index = [] then Inl NameError
             else
               (case dilation_stage C dce_rel label_im half (idxmin col) (cost_min col) of
                  Inl e \<Rightarrow> Inl e
                | Inr (msk1, cad) \<Rightarrow>
                    (case region_growing_stage C dce_rel half msk1 cad of
                       Inl e \<Rightarrow> Inl e
                     | Inr (msk2, carg) \<Rightarrow>
                         (case cluster_curve C dce_rel msk2 of
                            Inl e \<Rightarrow> Inl e
                          | Inr cb \<Rightarrow>
                              (case save_plot C (timeline dce_rel) cb of
                                 Inl e \<Rightarrow> Inl e
                               | Inr _ \<Rightarrow>
                                   Inr \<lparr>curve = cb, cost_best = cost_min col,
                                        cost_after_dilation = cad,
                                        cost_after_region_growing = carg\<rparr>)))))"

definition find_deterministic_aif :: "collab \<Rightarrow> real series \<Rightarrow> error + aif_result" where
  "find_deterministic_aif C dce =
     (let number_baseline = 5;
          k = 1;
          dce_rel = finite_part (relative_concentration_map dce number_baseline k ''abs'')
      in case select_brightest_voxels dce_rel 20 2 of
           Inl e \<Rightarrow> Inl e
         | Inr brightest_voxels \<Rightarrow>
             let opened = select_binary_opening (shape dce_rel) brightest_voxels
             in case temporal_alignment dce_rel opened of
                  Inl e \<Rightarrow> Inl e
                | Inr aligned \<Rightarrow> steps_4_to_7 C dce_rel opened)"

section \<open>Collaborators and volumes for evaluation\<close>

text \<open>
  Stand-ins for the collaborators, used to run the model on small inputs: the optimiser
  fails on a curve that is not finite (as scipy does, "residuals are not finite in the
  initial point") and otherwise reports the squared distance of the normalised curve from
  1; labelling and region properties return a fixed answer; erosion is the identity and
  dilation adds each voxel's successor; the flood fill returns the voxels that are
  brightest in the first frame; the clusterer returns the mean curve over the mask; the
  plot is saved without error.
\<close>

definition example_collab :: collab where
  "example_collab =
     \<lparr>least_squares = (\<lambda>y tline.
          if list_ex (\<lambda>v. case v of Fin r \<Rightarrow> False | _ \<Rightarrow> True) y then Inl ValueError
          else Inr \<lparr>cost = sum_list (map (\<lambda>v. (1 - fin_val v)\<^sup>2) y), params = []\<rparr>),
       measure_label = (\<lambda>s m. [1, 2, 3, 0]),
       regionprops = (\<lambda>s l.
          [\<lparr>label = 1, area = 2000, convex_image = [True], bbox = [0, 0, 0, 1, 1, 1]\<rparr>,
           \<lparr>label = 2, area = 1500, convex_image = [True], bbox = [0, 0, 1, 1, 1, 2]\<rparr>,
           \<lparr>label = 3, area = 1200, convex_image = [True], bbox = [0, 0, 2, 1, 1, 3]\<rparr>]),
       erosion = (\<lambda>s m. m),
       dilation = (\<lambda>s m. map (\<lambda>i. m ! i \<or> (0 < i \<and> m ! (i - 1))) [0..<length m]),
       flood_region = (\<lambda>d m. Inr (map (\<lambda>v. v = Max (set (hd (frames d)))) (hd (frames d)))),
       cluster_curve = (\<lambda>d m. Inr (map fin_val (time_course d m))),
       save_plot = (\<lambda>t cb. Inr ())\<rparr>"

definition example_rel :: "real series" where
  "example_rel =
     \<lparr>shape = (1, 1, 4), timeline = [0, 60, 120, 180],
      frames = [[1, 1, 3, 4], [2, 2, 4, 4], [5, 5, 5, 5], [3, 3, 3, 3]]\<rparr>"



section \<open>Properties of the Concentration Mapper\<close>

lemma fold_list_update_upt:
  "n \<le> length xs \<Longrightarrow> fold (\<lambda>i ys. ys[i := f i]) [0..<n] xs = map f [0..<n] @ drop n xs"
proof (induction n)
  case 0
  then show ?case by simp
next
  case (Suc n)
  then have "n < length xs" by simp
  then have "(map f [0..<n] @ drop n xs)[n := f n] = map f [0..<n] @ f n # drop (Suc n) xs"
    by (simp add: list_update_append upd_conv_take_nth_drop Cons_nth_drop_Suc)
  with Suc show ?case by simp
qed

lemma length_fold_rcm_step:
  "length (fold (rcm_step im im0 k option) is relim) = length relim"
  by (induction "is" arbitrary: relim) (simp_all add: rcm_step_def)


lemma clamp_cases: "\<not> fl_less (clamp v) (Fin 0) \<and> (clamp v = NaN \<or> fl_le (Fin 0) (clamp v))"
  by (cases v) (simp_all add: clamp_def)

lemma py_slice_to_all: "int (length xs) \<le> b \<Longrightarrow> py_slice_to b xs = xs"
  by (simp add: py_slice_to_def)



text \<open>
  Claim C5, as amended. For every input volume, baseline length, scale factor and mode, no
  value of the volume returned by the Concentration Mapper is negative: each value is
  greater than or equal to zero, or it is NaN (the clamp \<open>relim[relim < 0] = 0\<close> leaves a
  NaN in place).
\<close>

theorem concentration_never_negative:
  assumes "v \<in> set (concat (frames (relative_concentration_map im baseline k option)))"
  shows "\<not> fl_less v (Fin 0) \<and> (v = NaN \<or> fl_le (Fin 0) v)"
proof -
  from assms obtain u where "v = clamp u"
    by (auto simp: relative_concentration_map_def Let_def)
  then show ?thesis using clamp_cases by simp
qed

theorem concentration_never_negative_witness:
  "Fin 2 \<in> set (concat (frames (relative_concentration_map
       \<lparr>shape = (1, 1, 2), timeline = [0, 4], frames = [[1, 2], [3, 0]]\<rparr> (- 1) 1 ''abs'')))
   \<and> \<not> fl_less (Fin 2) (Fin 0) \<and> (Fin 2 = NaN \<or> fl_le (Fin 0) (Fin 2))"
proof -
  have m: "Fin 2 \<in> set (concat (frames (relative_concentration_map
       \<lparr>shape = (1, 1, 2), timeline = [0, 4], frames = [[1, 2], [3, 0]]\<rparr> (- 1) 1 ''abs'')))"
    by code_simp
  from concentration_never_negative [OF m] m show ?thesis by simp
qed

text \<open>
  The claim as stated fails: in relative mode a voxel whose baseline mean and signal are
  both zero gives \<open>0 / 0\<close>, a NaN, which is not greater than or equal to zero.
\<close>

theorem concentration_nan_counterexample:
  "\<not> (\<forall>v \<in> set (concat (frames (relative_concentration_map
          \<lparr>shape = (1, 1, 1), timeline = [0, 4], frames = [[0], [0]]\<rparr> 1 1 ''rel''))).
        fl_le (Fin 0) v)"
  by code_simp

text \<open>
  Claim C7, as amended. The Concentration Mapper makes no check of the baseline length and
  returns a volume of the input's shape and length for every baseline length; when the
  baseline length is at least the number of time samples, the result is the one for a
  baseline over all samples.
\<close>

theorem baseline_not_validated:
  "shape (relative_concentration_map im baseline k option) = shape im \<and>
   length (frames (relative_concentration_map im baseline k option)) = length (frames im) \<and>
   (int (length (frames im)) \<le> baseline \<longrightarrow>
      relative_concentration_map im baseline k option =
      relative_concentration_map im (int (length (frames im))) k option)"
  by (simp add: relative_concentration_map_def Let_def length_fold_rcm_step zeros_like_def
      py_slice_to_all)

theorem baseline_not_validated_witness:
  "int (length (frames \<lparr>shape = (1, 1, 1), timeline = [0, 4], frames = [[1], [3 :: real]]\<rparr>)) \<le> 5 \<and>
   relative_concentration_map \<lparr>shape = (1, 1, 1), timeline = [0, 4], frames = [[1], [3]]\<rparr> 5 1 ''abs''
   = relative_concentration_map \<lparr>shape = (1, 1, 1), timeline = [0, 4], frames = [[1], [3]]\<rparr> 2 1 ''abs''"
  using baseline_not_validated
    [of "\<lparr>shape = (1, 1, 1), timeline = [0, 4], frames = [[1], [3]]\<rparr>" 5 1 "''abs''"]
  by simp

text \<open>
  The claim as stated fails: with two time samples, the baseline lengths 5 and 0 (and -1)
  all return a volume; nothing is raised.
\<close>

theorem baseline_no_failure_counterexample:
  "relative_concentration_map \<lparr>shape = (1, 1, 1), timeline = [0, 4], frames = [[1], [3]]\<rparr> 5 1 ''abs''
     = \<lparr>shape = (1, 1, 1), timeline = [0, 4], frames = [[Fin 0], [Fin 1]]\<rparr> \<and>
   relative_concentration_map \<lparr>shape = (1, 1, 1), timeline = [0, 4], frames = [[1], [3]]\<rparr> 0 1 ''abs''
     = \<lparr>shape = (1, 1, 1), timeline = [0, 4], frames = [[NaN], [NaN]]\<rparr> \<and>
   relative_concentration_map \<lparr>shape = (1, 1, 1), timeline = [0, 4], frames = [[1], [3]]\<rparr> (- 1) 1 ''abs''
     = \<lparr>shape = (1, 1, 1), timeline = [0, 4], frames = [[Fin 0], [Fin 2]]\<rparr>"
  by code_simp

section \<open>Properties of the Candidate Selector\<close>

lemma interp_bounds:
  assumes "sorted s" and "s \<noteq> []" and "0 \<le> h" and "h \<le> real (length s - 1)"
  shows "s ! nat \<lfloor>h\<rfloor> \<le> interp s h"
    and "interp s h \<le> s ! min (nat \<lfloor>h\<rfloor> + 1) (length s - 1)"
proof -
  define lo where "lo = nat \<lfloor>h\<rfloor>"
  define hi where "hi = min (lo + 1) (length s - 1)"
  have lo_le: "real lo \<le> h" using assms(3) by (simp add: lo_def)
  have g1: "h - real lo < 1" using assms(3) unfolding lo_def by linarith
  have "lo \<le> length s - 1" using assms(3,4) unfolding lo_def by linarith
  then have lohi: "lo \<le> hi" and hi_lt: "hi < length s"
    using assms(2) by (auto simp: hi_def min_def)
  have d: "0 \<le> s ! hi - s ! lo"
    using sorted_nth_mono [OF assms(1) lohi hi_lt] by simp
  have f: "interp s h = s ! lo + (s ! hi - s ! lo) * (h - real lo)"
    by (simp add: interp_def Let_def lo_def hi_def)
  have "0 \<le> (s ! hi - s ! lo) * (h - real lo)"
    using d lo_le by simp
  then show "s ! nat \<lfloor>h\<rfloor> \<le> interp s h" using f by (simp add: lo_def)
  have "(s ! hi - s ! lo) * (h - real lo) \<le> (s ! hi - s ! lo) * 1"
    using d g1 by (intro mult_left_mono) simp_all
  then show "interp s h \<le> s ! min (nat \<lfloor>h\<rfloor> + 1) (length s - 1)"
    using f by (simp add: lo_def hi_def)
qed

lemma interp_mono:
  assumes srt: "sorted s" and ne: "s \<noteq> []"
    and h1: "0 \<le> h1" and h12: "h1 \<le> h2" and h2: "h2 \<le> real (length s - 1)"
  shows "interp s h1 \<le> interp s h2"
proof -
  define lo1 where "lo1 = nat \<lfloor>h1\<rfloor>"
  define lo2 where "lo2 = nat \<lfloor>h2\<rfloor>"
  have lo12: "lo1 \<le> lo2" unfolding lo1_def lo2_def using h12 by (simp add: floor_mono nat_mono)
  have lo2n: "lo2 \<le> length s - 1" using h1 h12 h2 unfolding lo2_def by linarith
  show ?thesis
  proof (cases "lo1 = lo2")
    case True
    define hi where "hi = min (lo1 + 1) (length s - 1)"
    have lohi: "lo1 \<le> hi" and hi_lt: "hi < length s"
      using ne lo2n True by (auto simp: hi_def min_def)
    have d: "0 \<le> s ! hi - s ! lo1"
      using sorted_nth_mono [OF srt lohi hi_lt] by simp
    have f1: "interp s h1 = s ! lo1 + (s ! hi - s ! lo1) * (h1 - real lo1)"
      by (simp add: interp_def Let_def lo1_def hi_def)
    have f2: "interp s h2 = s ! lo1 + (s ! hi - s ! lo1) * (h2 - real lo1)"
      using True by (simp add: interp_def Let_def lo1_def lo2_def hi_def)
    have "(s ! hi - s ! lo1) * (h1 - real lo1) \<le> (s ! hi - s ! lo1) * (h2 - real lo1)"
      using d h12 by (intro mult_left_mono) simp_all
    then show ?thesis using f1 f2 by simp
  next
    case False
    then have lt: "lo1 + 1 \<le> lo2" using lo12 by simp
    have a: "interp s h1 \<le> s ! min (lo1 + 1) (length s - 1)"
      using interp_bounds(2) [OF srt ne h1] h12 h2 by (simp add: lo1_def)
    have "min (lo1 + 1) (length s - 1) \<le> lo2" using lt by simp
    moreover have "lo2 < length s" using lo2n ne by (cases s) simp_all
    ultimately have b: "s ! min (lo1 + 1) (length s - 1) \<le> s ! lo2"
      using sorted_nth_mono [OF srt] by blast
    have c: "s ! lo2 \<le> interp s h2"
      using interp_bounds(1) [OF srt ne _ h2] h1 h12 by (simp add: lo2_def)
    from a b c show ?thesis by linarith
  qed
qed

lemma percentile_mono:
  assumes "0 \<le> q2" and "q2 \<le> q1" and "q1 \<le> 100"
  shows "percentile a q2 \<le> percentile a q1"
proof (cases "a = []")
  case True
  then show ?thesis by (simp add: percentile_def)
next
  case False
  let ?n = "real (length a - 1)"
  have len: "length (sort a) = length a" by simp
  have ne: "sort a \<noteq> []" using False by (metis len length_0_conv)
  have a: "0 \<le> ?n * (q2 / 100)" using assms by simp
  have b: "?n * (q2 / 100) \<le> ?n * (q1 / 100)"
    using assms by (intro mult_left_mono) simp_all
  have "?n * (q1 / 100) \<le> ?n * 1"
    using assms by (intro mult_left_mono) simp_all
  then have c: "?n * (q1 / 100) \<le> real (length (sort a) - 1)" by simp
  from interp_mono [OF sorted_sort ne a b c] show ?thesis
    using False by (simp add: percentile_def)
qed

lemma count_above_antimono:
  "(t2::real) \<le> t1 \<Longrightarrow>
   length (filter id (map (\<lambda>v. v > t1) xs)) \<le> length (filter id (map (\<lambda>v. v > t2) xs))"
  by (induction xs) auto

lemma select_brightest_voxels_ok:
  assumes "0 < timesteps" and "timesteps < int (length (frames dce))" and "0 < p" and "p < 100"
  shows "select_brightest_voxels dce timesteps p =
         Inr (map (\<lambda>v. v > percentile (window_mean dce timesteps) (100 - p))
                  (window_mean dce timesteps))"
  using assms unfolding select_brightest_voxels_def Let_def by simp

text \<open>
  Claim C9. For a fixed volume and a valid window length, if the percentiles satisfy
  \<open>0 < p1 \<le> p2 < 100\<close>, both selections succeed and the selection with \<open>p1\<close> marks at most
  as many voxels as the selection with \<open>p2\<close>.
\<close>

theorem threshold_monotonicity:
  assumes "0 < timesteps" and "timesteps < int (length (frames dce))"
    and "0 < p1" and "p1 \<le> p2" and "p2 < 100"
  shows "\<exists>m1 m2. select_brightest_voxels dce timesteps p1 = Inr m1 \<and>
                 select_brightest_voxels dce timesteps p2 = Inr m2 \<and>
                 length (filter id m1) \<le> length (filter id m2)"
proof -
  let ?ds = "window_mean dce timesteps"
  have t: "percentile ?ds (100 - p2) \<le> percentile ?ds (100 - p1)"
    using assms by (intro percentile_mono) simp_all
  have m1: "select_brightest_voxels dce timesteps p1
            = Inr (map (\<lambda>v. v > percentile ?ds (100 - p1)) ?ds)"
    using assms by (intro select_brightest_voxels_ok) simp_all
  have m2: "select_brightest_voxels dce timesteps p2
            = Inr (map (\<lambda>v. v > percentile ?ds (100 - p2)) ?ds)"
    using assms by (intro select_brightest_voxels_ok) simp_all
  from count_above_antimono [OF t, of ?ds] m1 m2 show ?thesis by blast
qed

theorem threshold_monotonicity_witness:
  "(0::int) < 2 \<and>
   (2::int) < int (length (frames \<lparr>shape = (1, 1, 4), timeline = [0, 4, 8],
                                   frames = [[1, 2, 3, 4], [3, 4, 9, 0], [0, 0, 0, 0 :: real]]\<rparr>)) \<and>
   (0::real) < 30 \<and> (30::real) \<le> 60 \<and> (60::real) < 100 \<and>
   (\<exists>m1 m2.
      select_brightest_voxels \<lparr>shape = (1, 1, 4), timeline = [0, 4, 8],
                               frames = [[1, 2, 3, 4], [3, 4, 9, 0], [0, 0, 0, 0]]\<rparr> 2 30 = Inr m1 \<and>
      select_brightest_voxels \<lparr>shape = (1, 1, 4), timeline = [0, 4, 8],
                               frames = [[1, 2, 3, 4], [3, 4, 9, 0], [0, 0, 0, 0]]\<rparr> 2 60 = Inr m2 \<and>
      length (filter id m1) \<le> length (filter id m2))"
  using threshold_monotonicity
    [of 2 "\<lparr>shape = (1, 1, 4), timeline = [0, 4, 8],
             frames = [[1, 2, 3, 4], [3, 4, 9, 0], [0, 0, 0, 0]]\<rparr>" 30 60]
  by simp

lemma mixed_radix_less: "(a::nat) < A \<Longrightarrow> b < B \<Longrightarrow> a * B + b < A * B"
proof -
  assume a: "a < A" and b: "b < B"
  have "a * B + b < a * B + B" using b by simp
  also have "\<dots> = Suc a * B" by simp
  also have "\<dots> \<le> A * B" using a by (intro mult_le_mono1) simp
  finally show ?thesis .
qed

lemma ravel_less:
  assumes "in_bounds s p"
  shows "ravel s p < nvox s"
proof -
  obtain Z Y X where s: "s = (Z, Y, X)" by (cases s)
  obtain z y x where p: "p = (z, y, x)" by (cases p)
  from assms have b: "nat z < Z" "nat y < Y" "nat x < X"
    by (auto simp: in_bounds_def s p)
  have "nat z * Y + nat y < Z * Y" using b by (intro mixed_radix_less)
  then have "(nat z * Y + nat y) * X + nat x < (Z * Y) * X" using b by (intro mixed_radix_less)
  then show ?thesis by (simp add: ravel_def nvox_def s p)
qed

lemma unravel_ravel:
  assumes "in_bounds s p"
  shows "unravel s (ravel s p) = p"
proof -
  obtain Z Y X where s: "s = (Z, Y, X)" by (cases s)
  obtain z y x where p: "p = (z, y, x)" by (cases p)
  from assms have b: "nat y < Y" "nat x < X" and nn: "0 \<le> z" "0 \<le> y" "0 \<le> x"
    by (auto simp: in_bounds_def s p)
  let ?i = "(nat z * Y + nat y) * X + nat x"
  have d: "?i div X = nat z * Y + nat y" using b by simp
  have m: "?i mod X = nat x" using b by simp
  have "?i div (Y * X) = ?i div X div Y" by (simp add: div_mult2_eq mult.commute)
  then have dz: "?i div (Y * X) = nat z" using d b by simp
  have dy: "?i div X mod Y = nat y" using d b by simp
  show ?thesis
    using dz dy m nn by (simp add: unravel_def ravel_def s p)
qed

lemma binary_erosion_nth:
  "i < nvox s \<Longrightarrow>
   binary_erosion s st m ! i = (\<forall>d \<in> set st. voxel_at s m (shift (unravel s i) d))"
  by (simp add: binary_erosion_def list_all_iff)

lemma binary_dilation_nth:
  "i < nvox s \<Longrightarrow>
   binary_dilation s st m ! i = (\<exists>d \<in> set st. voxel_at s m (unshift (unravel s i) d))"
  by (simp add: binary_dilation_def list_ex_iff)

lemma voxel_at_erosion:
  "voxel_at s (binary_erosion s st m) q =
     (in_bounds s q \<and> (\<forall>d \<in> set st. voxel_at s m (shift q d)))"
  using ravel_less [of s q] unravel_ravel [of s q]
  by (auto simp: voxel_at_def binary_erosion_nth)

lemma binary_opening_nth:
  assumes "i < nvox s"
  shows "binary_opening s st m ! i =
     (\<exists>d \<in> set st. in_bounds s (unshift (unravel s i) d) \<and>
                  (\<forall>e \<in> set st. voxel_at s m (shift (unshift (unravel s i) d) e)))"
  using assms by (simp add: binary_opening_def binary_dilation_nth voxel_at_erosion)

lemma default_structure:
  "generate_binary_structure 1 =
     [(- 1, 0, 0), (0, - 1, 0), (0, 0, - 1), (0, 0, 0), (0, 0, 1), (0, 1, 0), (1, 0, 0)]"
  by code_simp

text \<open>
  Claim C8, as amended. The Candidate Selector's binary opening is one erosion followed by
  one dilation with the library's default structuring element of connectivity 1: the centre
  voxel and its six face neighbours. A voxel is set in the result exactly when it is the
  centre or a face neighbour of a voxel that, together with its own six face neighbours,
  lies inside the volume and is set in the input.
\<close>

theorem opening_default_structure:
  "generate_binary_structure 1 =
     [(- 1, 0, 0), (0, - 1, 0), (0, 0, - 1), (0, 0, 0), (0, 0, 1), (0, 1, 0), (1, 0, 0)] \<and>
   (i < nvox s \<longrightarrow>
     select_binary_opening s voxels ! i =
       (\<exists>d \<in> set (generate_binary_structure 1).
          in_bounds s (unshift (unravel s i) d) \<and>
          (\<forall>e \<in> set (generate_binary_structure 1).
             voxel_at s voxels (shift (unshift (unravel s i) d) e))))"
proof (intro conjI impI)
  show "generate_binary_structure 1 =
     [(- 1, 0, 0), (0, - 1, 0), (0, 0, - 1), (0, 0, 0), (0, 0, 1), (0, 1, 0), (1, 0, 0)]"
    by (rule default_structure)
next
  assume "i < nvox s"
  then show "select_binary_opening s voxels ! i =
       (\<exists>d \<in> set (generate_binary_structure 1).
          in_bounds s (unshift (unravel s i) d) \<and>
          (\<forall>e \<in> set (generate_binary_structure 1).
             voxel_at s voxels (shift (unshift (unravel s i) d) e)))"
    unfolding select_binary_opening_def by (rule binary_opening_nth)
qed

text \<open>
  The claim as stated fails: the structuring element has 7 voxels, not 27. A 7-voxel cross
  in a \<open>3 \<times> 3 \<times> 3\<close> volume survives the opening unchanged, whereas an opening with
  the full 26-neighbourhood element removes it entirely.
\<close>

theorem opening_not_full_cube_counterexample:
  "length (generate_binary_structure 1) = 7 \<and>
   select_binary_opening (3, 3, 3)
     [False, False, False, False, True, False, False, False, False,
      False, True, False, True, True, True, False, True, False,
      False, False, False, False, True, False, False, False, False]
   = [False, False, False, False, True, False, False, False, False,
      False, True, False, True, True, True, False, True, False,
      False, False, False, False, True, False, False, False, False] \<and>
   binary_opening (3, 3, 3) (generate_binary_structure 3)
     [False, False, False, False, True, False, False, False, False,
      False, True, False, True, True, True, False, True, False,
      False, False, False, False, True, False, False, False, False]
   = replicate 27 False"
  by code_simp

theorem opening_default_structure_witness:
  "(13::nat) < nvox (3, 3, 3) \<and>
   select_binary_opening (3, 3, 3)
     [False, False, False, False, True, False, False, False, False,
      False, True, False, True, True, True, False, True, False,
      False, False, False, False, True, False, False, False, False] ! 13"
  using opening_default_structure [of 13 "(3, 3, 3)" "[False, False, False, False, True, False, False, False, False,
      False, True, False, True, True, True, False, True, False,
      False, False, False, False, True, False, False, False, False]"]
  by code_simp

section \<open>Properties of the Temporal Peak Aligner and the Region Extractor\<close>

lemma mask_select_Cons:
  "mask_select (x # xs) (m # ms) = (if m then x # mask_select xs ms else mask_select xs ms)"
  by (simp add: mask_select_def)

lemma mask_select_Nil: "mask_select [] ms = []" "mask_select xs [] = []"
  by (simp_all add: mask_select_def)

lemma mask_select_map: "mask_select (map f xs) msk = map f (mask_select xs msk)"
proof (induction xs arbitrary: msk)
  case Nil
  then show ?case by (simp add: mask_select_Nil)
next
  case (Cons x xs)
  then show ?case by (cases msk) (simp_all add: mask_select_Nil mask_select_Cons)
qed

lemma mask_select_nths: "mask_select fr msk = map ((!) fr) (mask_select [0..<length fr] msk)"
proof -
  have "mask_select (map ((!) fr) [0..<length fr]) msk = map ((!) fr) (mask_select [0..<length fr] msk)"
    by (rule mask_select_map)
  then show ?thesis by (simp add: map_nth)
qed

lemma length_mask_assign: "length (mask_assign bs ms vs) = length bs"
  by (induction bs ms vs rule: mask_assign.induct) (auto split: list.splits)

lemma mask_assign_select_nth:
  "length base = length msk \<Longrightarrow> length xs = length msk \<Longrightarrow> j < length msk \<Longrightarrow>
   mask_assign base msk (map f (mask_select xs msk)) ! j = (if msk ! j then f (xs ! j) else base ! j)"
proof (induction msk arbitrary: base xs j)
  case Nil
  then show ?case by simp
next
  case (Cons m ms)
  obtain b bs where base: "base = b # bs" using Cons.prems(1) by (cases base) auto
  obtain x xs' where xs: "xs = x # xs'" using Cons.prems(2) by (cases xs) auto
  have l: "length bs = length ms" "length xs' = length ms" using Cons.prems base xs by auto
  show ?case
  proof (cases j)
    case 0
    then show ?thesis by (simp add: base xs mask_select_Cons)
  next
    case (Suc j')
    then have "j' < length ms" using Cons.prems(3) by simp
    from Cons.IH [OF l this] show ?thesis by (simp add: base xs Suc mask_select_Cons)
  qed
qed

lemma peak_values_eq:
  assumes w: "window \<noteq> []" and len: "\<forall>fr \<in> set window. length fr = n"
  shows "argmax_axis0 (map (\<lambda>fr. mask_select fr msk) window)
         = map (\<lambda>j. np_argmax (map (\<lambda>fr. fr ! j) window)) (mask_select [0..<n] msk)"
proof -
  let ?sel = "mask_select [0..<n] msk"
  have rows: "map (\<lambda>fr. mask_select fr msk) window = map (\<lambda>fr. map ((!) fr) ?sel) window"
  proof (intro map_cong refl)
    fix fr assume "fr \<in> set window"
    then have "length fr = n" using len by blast
    then show "mask_select fr msk = map ((!) fr) (mask_select [0..<n] msk)"
      using mask_select_nths [of fr msk] by simp
  qed
  have hd: "length (hd (map (\<lambda>fr. map ((!) fr) ?sel) window)) = length ?sel"
    using w by (cases window) simp_all
  have "argmax_axis0 (map (\<lambda>fr. map ((!) fr) ?sel) window)
        = map (\<lambda>k. np_argmax (map (\<lambda>fr. fr ! (?sel ! k)) window)) [0..<length ?sel]"
    unfolding argmax_axis0_def hd
  proof (intro map_cong refl)
    fix k assume "k \<in> set [0..<length ?sel]"
    then have "k < length ?sel" by simp
    then have "map (\<lambda>r. r ! k) (map (\<lambda>fr. map ((!) fr) ?sel) window)
               = map (\<lambda>fr. fr ! (?sel ! k)) window"
      by (simp add: comp_def)
    then show "np_argmax (map (\<lambda>r. r ! k) (map (\<lambda>fr. map ((!) fr) ?sel) window))
               = np_argmax (map (\<lambda>fr. fr ! (?sel ! k)) window)"
      by (rule arg_cong)
  qed
  also have "\<dots> = map (\<lambda>j. np_argmax (map (\<lambda>fr. fr ! j) window)) (map ((!) ?sel) [0..<length ?sel])"
    by (simp add: comp_def)
  also have "\<dots> = map (\<lambda>j. np_argmax (map (\<lambda>fr. fr ! j) window)) ?sel"
    by (simp only: map_nth)
  finally show ?thesis by (simp only: rows)
qed

lemma window_frames:
  "wf_series dce \<Longrightarrow> \<forall>fr \<in> set (py_slice_to t (frames dce)). length fr = nvox (shape dce)"
  by (auto simp: wf_series_def py_slice_to_def list_all_iff dest: in_set_takeD)

lemma first_part_nth:
  assumes "wf_series dce" and "length msk = nvox (shape dce)" and "j < nvox (shape dce)"
    and "py_slice_to timesteps (frames dce) \<noteq> []"
  shows "first_part dce msk timesteps ! j =
     (msk ! j \<and> 0 < np_argmax (map (\<lambda>fr. fr ! j) (py_slice_to timesteps (frames dce)))
             \<and> int (np_argmax (map (\<lambda>fr. fr ! j) (py_slice_to timesteps (frames dce)))) < timesteps)"
proof -
  let ?n = "nvox (shape dce)"
  let ?w = "py_slice_to timesteps (frames dce)"
  let ?g = "\<lambda>j. 0 < np_argmax (map (\<lambda>fr. fr ! j) ?w) \<and> int (np_argmax (map (\<lambda>fr. fr ! j) ?w)) < timesteps"
  have pv: "peak_values dce msk timesteps = map (\<lambda>j. np_argmax (map (\<lambda>fr. fr ! j) ?w)) (mask_select [0..<?n] msk)"
    unfolding peak_values_def using assms(4) window_frames [OF assms(1)] by (rule peak_values_eq)
  have "first_part dce msk timesteps = mask_assign (replicate ?n False) msk (map ?g (mask_select [0..<?n] msk))"
    by (simp add: first_part_def Let_def pv comp_def)
  moreover have "mask_assign (replicate ?n False) msk (map ?g (mask_select [0..<?n] msk)) ! j
      = (if msk ! j then ?g ([0..<?n] ! j) else replicate ?n False ! j)"
    using assms(2,3) by (intro mask_assign_select_nth) simp_all
  ultimately show ?thesis using assms(3) by simp
qed

lemma retained_nth:
  assumes "length msk = n" and "length fr = n" and "j < n"
  shows "mask_assign (replicate n (0::real)) msk (mask_select fr msk) ! j = (if msk ! j then fr ! j else 0)"
proof -
  have "mask_assign (replicate n (0::real)) msk (map (\<lambda>x. x) (mask_select fr msk)) ! j
        = (if msk ! j then (\<lambda>x. x) (fr ! j) else replicate n 0 ! j)"
    using assms by (intro mask_assign_select_nth) simp_all
  then show ?thesis using assms by simp
qed

text \<open>
  Claim C3, as amended. For a well-formed masked input and a non-empty window, the Temporal
  Peak Aligner keeps out of the peak-time histogram every voxel outside the mask and every
  masked voxel whose peak index is the first index of the window; on success the dominant
  timestep \<open>t\<close> lies strictly between the first and the last index of the window, and the
  returned voxel-value map is zero outside the original mask and carries, at every voxel
  inside the mask, that voxel's value at timestep \<open>t\<close>.
\<close>

theorem aligner_first_index_and_map:
  assumes "wf_series dce" and "length msk = nvox (shape dce)" and "j < nvox (shape dce)"
    and "py_slice_to timesteps (frames dce) \<noteq> []"
  shows "(np_argmax (map (\<lambda>fr. fr ! j) (py_slice_to timesteps (frames dce))) = 0
            \<longrightarrow> \<not> first_part dce msk timesteps ! j) \<and>
         (\<not> msk ! j \<longrightarrow> \<not> first_part dce msk timesteps ! j) \<and>
         (\<forall>t r. find_most_peak_values dce msk timesteps = Inr (Some (t, r)) \<longrightarrow>
                 0 < t \<and> int t < timesteps - 1 \<and> length r = nvox (shape dce) \<and>
                 r ! j = (if msk ! j then frames dce ! t ! j else 0))"
proof (intro conjI allI impI)
  assume "np_argmax (map (\<lambda>fr. fr ! j) (py_slice_to timesteps (frames dce))) = 0"
  then show "\<not> first_part dce msk timesteps ! j"
    using first_part_nth [OF assms] by simp
next
  assume "\<not> msk ! j"
  then show "\<not> first_part dce msk timesteps ! j"
    using first_part_nth [OF assms] by simp
next
  fix t r
  assume ok: "find_most_peak_values dce msk timesteps = Inr (Some (t, r))"
  then have t: "0 < t" "int t < timesteps - 1" "t < length (frames dce)"
    and r: "r = mask_assign (replicate (nvox (shape dce)) 0) msk (mask_select (frames dce ! t) msk)"
    by (auto simp: find_most_peak_values_def Let_def split: if_splits)
  show "0 < t" "int t < timesteps - 1" by (rule t)+
  show "length r = nvox (shape dce)" by (simp add: r length_mask_assign)
  have "length (frames dce ! t) = nvox (shape dce)"
    using assms(1) t(3) by (simp add: wf_series_def list_all_length)
  from retained_nth [OF assms(2) this assms(3)]
  show "r ! j = (if msk ! j then frames dce ! t ! j else 0)" by (simp add: r)
qed

theorem aligner_first_index_and_map_witness:
  "wf_series \<lparr>shape = (1, 1, 5), timeline = [0, 1, 2, 3, 4],
      frames = [[9, 1, 1, 1, 1], [5, 5, 2, 2, 2], [3, 3, 6, 6, 3], [2, 2, 3, 3, 7], [1, 1, 1, 1, 1 :: real]]\<rparr> \<and>
   length [True, True, True, True, True] = nvox (1, 1, 5) \<and> 0 < nvox (1, 1, 5) \<and>
   np_argmax (map (\<lambda>fr. fr ! 0) (py_slice_to 4
      [[9, 1, 1, 1, 1], [5, 5, 2, 2, 2], [3, 3, 6, 6, 3], [2, 2, 3, 3, 7], [1, 1, 1, 1, 1 :: real]])) = 0 \<and>
   \<not> first_part \<lparr>shape = (1, 1, 5), timeline = [0, 1, 2, 3, 4],
      frames = [[9, 1, 1, 1, 1], [5, 5, 2, 2, 2], [3, 3, 6, 6, 3], [2, 2, 3, 3, 7], [1, 1, 1, 1, 1]]\<rparr>
      [True, True, True, True, True] 4 ! 0 \<and>
   find_most_peak_values \<lparr>shape = (1, 1, 5), timeline = [0, 1, 2, 3, 4],
      frames = [[9, 1, 1, 1, 1], [5, 5, 2, 2, 2], [3, 3, 6, 6, 3], [2, 2, 3, 3, 7], [1, 1, 1, 1, 1]]\<rparr>
      [True, True, True, True, True] 4 = Inr (Some (2, [3, 3, 6, 6, 3]))"
proof -
  let ?dce = "\<lparr>shape = (1, 1, 5), timeline = [0, 1, 2, 3, 4],
      frames = [[9, 1, 1, 1, 1], [5, 5, 2, 2, 2], [3, 3, 6, 6, 3], [2, 2, 3, 3, 7], [1, 1, 1, 1, 1 :: real]]\<rparr>"
  let ?msk = "[True, True, True, True, True]"
  have wf: "wf_series ?dce" by code_simp
  have len: "length ?msk = nvox (shape ?dce)" by code_simp
  have j: "0 < nvox (shape ?dce)" by code_simp
  have w: "py_slice_to 4 (frames ?dce) \<noteq> []" by code_simp
  have p: "np_argmax (map (\<lambda>fr. fr ! 0) (py_slice_to 4 (frames ?dce))) = 0" by code_simp
  have f: "find_most_peak_values ?dce ?msk 4 = Inr (Some (2, [3, 3, 6, 6, 3]))" by code_simp
  from aligner_first_index_and_map [OF wf len j w] p
  have "\<not> first_part ?dce ?msk 4 ! 0" by blast
  with wf len j p f show ?thesis by simp
qed

text \<open>
  The claim as stated fails. With a window of 4 timesteps (indices 0 to 3) and four masked
  voxels whose peaks are at indices 1, 2, 2 and 3, the voxel that peaks at the last index 3
  is kept for the histogram, and the map returned for the dominant timestep 2 carries the
  non-zero values 3 and 3 at the two voxels whose peaks are at 1 and at 3.
\<close>

theorem aligner_retains_all_masked_counterexample:
  "peak_values \<lparr>shape = (1, 1, 4), timeline = [0, 1, 2, 3, 4],
      frames = [[1, 1, 1, 1], [5, 2, 2, 2], [3, 6, 6, 3], [2, 3, 3, 7], [1, 1, 1, 1]]\<rparr>
      [True, True, True, True] 4 = [1, 2, 2, 3] \<and>
   first_part \<lparr>shape = (1, 1, 4), timeline = [0, 1, 2, 3, 4],
      frames = [[1, 1, 1, 1], [5, 2, 2, 2], [3, 6, 6, 3], [2, 3, 3, 7], [1, 1, 1, 1]]\<rparr>
      [True, True, True, True] 4 = [True, True, True, True] \<and>
   find_most_peak_values \<lparr>shape = (1, 1, 4), timeline = [0, 1, 2, 3, 4],
      frames = [[1, 1, 1, 1], [5, 2, 2, 2], [3, 6, 6, 3], [2, 3, 3, 7], [1, 1, 1, 1]]\<rparr>
      [True, True, True, True] 4 = Inr (Some (2, [3, 6, 6, 3]))"
  by code_simp

lemma find_promising_objects_index_iff:
  "num \<in> set (snd (snd (find_promising_objects regions area_threshold))) \<longleftrightarrow>
     num < length regions \<and> num \<noteq> 0 \<and> area_threshold < area (regions ! num)"
  by (force simp: find_promising_objects_def Let_def in_set_enumerate_eq)

text \<open>
  Claim C4. The claim says that every non-background component above the area threshold is
  a candidate. The code skips position 0 of the region list, which is the component with
  label 1 (the list has no entry for the background): with components of 2000 and 1500
  voxels and threshold 1000, only the second is returned.
\<close>

theorem first_component_dropped:
  "find_promising_objects
     [\<lparr>label = 1, area = 2000, convex_image = [True], bbox = [0, 0, 0, 1, 1, 1]\<rparr>,
      \<lparr>label = 2, area = 1500, convex_image = [True, True], bbox = [0, 0, 1, 1, 1, 3]\<rparr>] 1000
   = ([[True, True]], [[0, 0, 1, 1, 1, 3]], [1])"
  by code_simp

section \<open>Properties of the fits and of the Mask Refiner\<close>

lemma fit_candidates_column:
  assumes "fit_candidates C dce_rel label_im half xs col0 = Inr col"
  shows "length col = length col0 \<and>
         (\<forall>i < length col0. i \<in> set xs \<longrightarrow>
            (\<exists>s. fit_mask C dce_rel half (region_mask label_im i) = Inr s \<and> col ! i = Some (cost s))) \<and>
         (\<forall>i < length col0. i \<notin> set xs \<longrightarrow> col ! i = col0 ! i)"
  using assms
proof (induction xs arbitrary: col0)
  case Nil
  then show ?case by simp
next
  case (Cons x xs)
  from Cons.prems obtain s where
    s: "fit_mask C dce_rel half (region_mask label_im x) = Inr s" and
    rest: "fit_candidates C dce_rel label_im half xs (col0[x := Some (cost s)]) = Inr col"
    by (auto split: sum.splits)
  from Cons.IH [OF rest] have
    len: "length col = length col0" and
    inn: "\<And>i. i < length col0 \<Longrightarrow> i \<in> set xs \<Longrightarrow>
            \<exists>s'. fit_mask C dce_rel half (region_mask label_im i) = Inr s' \<and> col ! i = Some (cost s')" and
    out: "\<And>i. i < length col0 \<Longrightarrow> i \<notin> set xs \<Longrightarrow> col ! i = (col0[x := Some (cost s)]) ! i"
    by auto
  show ?case
  proof (intro conjI allI impI)
    show "length col = length (col0)" by (rule len)
  next
    fix i assume i: "i < length col0" and m: "i \<in> set (x # xs)"
    show "\<exists>s. fit_mask C dce_rel half (region_mask label_im i) = Inr s \<and> col ! i = Some (cost s)"
    proof (cases "i \<in> set xs")
      case True
      then show ?thesis using inn i by blast
    next
      case False
      then have "i = x" using m by simp
      then show ?thesis using out [OF i False] s i by simp
    qed
  next
    fix i assume i: "i < length col0" and m: "i \<notin> set (x # xs)"
    then show "col ! i = col0 ! i" using out [of i] by simp
  qed
qed

lemma cost_min_le:
  assumes "i < length col" and "col ! i = Some c"
  shows "cost_min col \<le> c"
proof -
  have "Some c \<in> set col" using assms by (metis nth_mem)
  then have "c \<in> set (present col)" by (force simp: present_def)
  then show ?thesis unfolding cost_min_def by (intro Min_le) simp_all
qed

lemma cost_min_attained:
  assumes "i < length col" and "col ! i = Some c"
  shows "\<exists>j < length col. col ! j = Some (cost_min col)"
proof -
  have "Some c \<in> set col" using assms by (metis nth_mem)
  then have "c \<in> set (present col)" by (force simp: present_def)
  then have "set (present col) \<noteq> {}" by auto
  then have "cost_min col \<in> set (present col)" unfolding cost_min_def by (intro Min_in) simp_all
  then have "Some (cost_min col) \<in> set col" by (auto simp: present_def)
  then show ?thesis by (auto simp: in_set_conv_nth)
qed

lemma dilation_stage_result:
  assumes "dilation_stage C dce_rel label_im half best_fit min_cost = Inr (msk1, cad)"
  shows "cad \<le> min_cost \<and> (msk1 \<noteq> region_mask label_im best_fit \<longrightarrow> cad < min_cost)"
  using assms
  by (auto simp: dilation_stage_def Let_def split: sum.splits if_splits)

lemma region_growing_stage_result:
  assumes "region_growing_stage C dce_rel half msk1 cad = Inr (msk2, carg)"
  shows "carg \<le> cad \<and> (msk2 \<noteq> msk1 \<longrightarrow> carg < cad)"
  using assms
  by (auto simp: region_growing_stage_def split: sum.splits if_splits)

text \<open>
  Claim C1. The best-cost values carried through the pipeline do not increase: the cost
  after the erosion and dilation step is at most the minimum fit cost over the candidate
  regions (a minimum that one of the candidates attains), the cost after region growing is
  at most the cost after dilation, and each step replaces the mask only when the refit
  cost is strictly lower than the cost carried in.
\<close>

theorem best_cost_non_increasing:
  assumes fits: "fit_candidates C dce_rel label_im half list_of_index (replicate n None) = Inr col"
    and cand: "x \<in> set list_of_index" and xn: "x < n"
    and s1: "dilation_stage C dce_rel label_im half (idxmin col) (cost_min col) = Inr (msk1, cad)"
    and s2: "region_growing_stage C dce_rel half msk1 cad = Inr (msk2, carg)"
  shows "carg \<le> cad \<and> cad \<le> cost_min col \<and>
         (\<exists>s. fit_mask C dce_rel half (region_mask label_im x) = Inr s \<and> cost_min col \<le> cost s) \<and>
         (\<exists>y \<in> set list_of_index. \<exists>s.
             fit_mask C dce_rel half (region_mask label_im y) = Inr s \<and> cost s = cost_min col) \<and>
         (msk1 \<noteq> region_mask label_im (idxmin col) \<longrightarrow> cad < cost_min col) \<and>
         (msk2 \<noteq> msk1 \<longrightarrow> carg < cad)"
proof -
  from fit_candidates_column [OF fits] have
    len: "length col = n" and
    inn: "\<And>i. i < n \<Longrightarrow> i \<in> set list_of_index \<Longrightarrow>
            \<exists>s. fit_mask C dce_rel half (region_mask label_im i) = Inr s \<and> col ! i = Some (cost s)" and
    out: "\<And>i. i < n \<Longrightarrow> i \<notin> set list_of_index \<Longrightarrow> col ! i = None"
    by auto
  from inn [OF xn cand] obtain s where
    s: "fit_mask C dce_rel half (region_mask label_im x) = Inr s" "col ! x = Some (cost s)"
    by blast
  have a: "\<exists>s. fit_mask C dce_rel half (region_mask label_im x) = Inr s \<and> cost_min col \<le> cost s"
    using s cost_min_le [of x col "cost s"] xn len by auto
  from cost_min_attained [of x col "cost s"] s xn len
  obtain j where j: "j < n" "col ! j = Some (cost_min col)" by auto
  then have jl: "j \<in> set list_of_index" using out [of j] by auto
  from inn [OF j(1) jl] obtain sj where
    sj: "fit_mask C dce_rel half (region_mask label_im j) = Inr sj" "col ! j = Some (cost sj)"
    by blast
  then have "cost sj = cost_min col" using j(2) by simp
  with sj(1) jl
  have b: "\<exists>y \<in> set list_of_index. \<exists>s.
             fit_mask C dce_rel half (region_mask label_im y) = Inr s \<and> cost s = cost_min col"
    by blast
  from a b dilation_stage_result [OF s1] region_growing_stage_result [OF s2]
  show ?thesis by simp
qed

theorem best_cost_non_increasing_witness:
  "fit_candidates example_collab example_rel [1, 2, 3, 0] 2 [1, 2] (replicate 3 None)
     = Inr [None, Some (1 / 4), Some (1 / 16)] \<and>
   (2::nat) \<in> set [1, 2] \<and> (2::nat) < 3 \<and>
   dilation_stage example_collab example_rel [1, 2, 3, 0] 2
     (idxmin [None, Some (1 / 4), Some (1 / 16)]) (cost_min [None, Some (1 / 4), Some (1 / 16)])
     = Inr ([False, False, True, True], 1 / 64) \<and>
   region_growing_stage example_collab example_rel 2 [False, False, True, True] (1 / 64)
     = Inr ([False, False, False, True], 0) \<and>
   (0::real) \<le> 1 / 64 \<and> (1 / 64 :: real) \<le> cost_min [None, Some (1 / 4), Some (1 / 16)]"
proof -
  have f: "fit_candidates example_collab example_rel [1, 2, 3, 0] 2 [1, 2] (replicate 3 None)
     = Inr [None, Some (1 / 4), Some (1 / 16)]" by code_simp
  have s1: "dilation_stage example_collab example_rel [1, 2, 3, 0] 2
     (idxmin [None, Some (1 / 4), Some (1 / 16)]) (cost_min [None, Some (1 / 4), Some (1 / 16)])
     = Inr ([False, False, True, True], 1 / 64)" by code_simp
  have s2: "region_growing_stage example_collab example_rel 2 [False, False, True, True] (1 / 64)
     = Inr ([False, False, False, True], 0)" by code_simp
  have c: "(2::nat) \<in> set [1, 2]" "(2::nat) < 3" by simp_all
  from best_cost_non_increasing [OF f c s1 s2] f s1 s2 show ?thesis by simp
qed


section \<open>Properties of the Pipeline Orchestrator\<close>









lemma norm_abs: "strip (upper ''abs'') = ''ABS''"
  by code_simp

lemma fold_rcm_step_abs:
  assumes "strip (upper option) = ''ABS''" and "n \<le> length relim"
  shows "fold (rcm_step im im0 k option) [0..<n] relim
         = map (\<lambda>i. map2 (\<lambda>x m. fl_times k (fl_minus (Fin x) m)) (im ! i) im0) [0..<n] @ drop n relim"
proof -
  have "rcm_step im im0 k option
        = (\<lambda>i ys. ys[i := map2 (\<lambda>x m. fl_times k (fl_minus (Fin x) m)) (im ! i) im0])"
    using assms(1) by (intro ext) (simp add: rcm_step_def)
  then show ?thesis using fold_list_update_upt [OF assms(2)] by simp
qed

lemma clamp_Fin: "\<exists>r. clamp (Fin x) = Fin r"
  by (simp add: clamp_def)

lemma abs_mode_values_finite:
  assumes b: "0 < baseline"
    and v: "v \<in> set (concat (frames (relative_concentration_map im baseline k ''abs'')))"
  shows "\<exists>r. v = Fin r"
proof -
  define im0 where "im0 = mean_axis0 (nvox (shape im)) (py_slice_to baseline (frames im))"
  define row where "row = (\<lambda>i. map2 (\<lambda>x m. fl_times k (fl_minus (Fin x) m)) (frames im ! i) im0)"
  have fr: "frames (relative_concentration_map im baseline k ''abs'')
            = map (map clamp) (map row [0..<length (frames im)])"
    using fold_rcm_step_abs [OF norm_abs, of "length (frames im)" "frames (zeros_like im)"]
    by (simp add: relative_concentration_map_def Let_def zeros_like_def row_def im0_def)
  from v obtain i where i: "i < length (frames im)" and vi: "v \<in> set (map clamp (row i))"
    unfolding fr by auto
  from vi obtain u where u: "u \<in> set (row i)" and vu: "v = clamp u"
    by auto
  from u obtain xm where xm: "xm \<in> set (zip (frames im ! i) im0)"
    and uxm: "u = fl_times k (fl_minus (Fin (fst xm)) (snd xm))"
    unfolding row_def by (auto simp: case_prod_beta)
  define x where "x = fst xm"
  define m where "m = snd xm"
  have m: "m \<in> set im0" using xm set_zip_rightD [of "fst xm" "snd xm" "frames im ! i" im0] unfolding m_def by simp
  have ux: "u = fl_times k (fl_minus (Fin x) m)" using uxm by (simp add: x_def m_def)
  have ne: "py_slice_to baseline (frames im) \<noteq> []"
    using b i by (auto simp: py_slice_to_def)
  from m ne obtain c where "m = Fin c"
    unfolding im0_def by (auto simp: mean_axis0_def np_mean_def)
  then show ?thesis using ux vu clamp_Fin by simp
qed

lemma steps_4_to_7_costs:
  assumes "steps_4_to_7 C dce_rel opened = Inr r"
  shows "cost_after_region_growing r \<le> cost_after_dilation r \<and>
         cost_after_dilation r \<le> cost_best r"
proof -
  from assms obtain col b msk1 cad msk2 carg cb where
    s1: "dilation_stage C dce_rel (measure_label C (shape dce_rel) opened)
           (length (timeline dce_rel) div 2) b (cost_min col) = Inr (msk1, cad)" and
    s2: "region_growing_stage C dce_rel (length (timeline dce_rel) div 2) msk1 cad = Inr (msk2, carg)" and
    r: "r = \<lparr>curve = cb, cost_best = cost_min col, cost_after_dilation = cad,
              cost_after_region_growing = carg\<rparr>"
    by (auto simp: steps_4_to_7_def Let_def split: sum.splits if_splits prod.splits unit.splits)
  from dilation_stage_result [OF s1] region_growing_stage_result [OF s2] r
  show ?thesis by simp
qed

lemma pipeline_costs_non_increasing:
  assumes "find_deterministic_aif C dce = Inr r"
  shows "cost_after_region_growing r \<le> cost_after_dilation r \<and>
         cost_after_dilation r \<le> cost_best r"
  using assms
  by (auto simp: find_deterministic_aif_def Let_def split: sum.splits dest: steps_4_to_7_costs)

end
